theory Spec2Isabelle
  imports Complex_Main
begin

section \<open>Data model\<close>

subsection \<open>Moderation actions (services/websocket.ts)\<close>

text \<open>
  \<^verbatim>\<open>action_type: 'blur' | 'hide'\<close> is a two-valued enumeration; the other fields of
  the interface \<^verbatim>\<open>ModerationAction\<close> are strings.
\<close>

datatype action_type = Blur | Hide

record ModerationAction =
  reply_id :: string
  action_type :: action_type
  reason :: string
  sentiment :: string
  timestamp :: string
  status :: string

subsection \<open>Content items (types/index.ts)\<close>

datatype reply_type = TextReply | ImageReply | GifReply

text \<open>
  The interface \<^verbatim>\<open>Reply\<close>: \<^verbatim>\<open>id\<close>, \<^verbatim>\<open>type\<close>, \<^verbatim>\<open>content\<close>, the optional
  \<^verbatim>\<open>media_url\<close>, the item's own \<^verbatim>\<open>sentiment\<close> label and the \<^verbatim>\<open>hidden\<close> flag.
  Author and language play no part in moderation and are left out.
\<close>

record Reply =
  item_id :: string
  item_type :: reply_type
  content :: string
  media_url :: "string option"
  item_sentiment :: string
  hidden :: bool

subsection \<open>The batch analysis payload\<close>

text \<open>
  The payload is read through optional chaining everywhere, so every level that the code
  guards with \<^verbatim>\<open>?.\<close> is an option here. An element of \<^verbatim>\<open>moderation_actions\<close> is
  either shaped like a \<^verbatim>\<open>ModerationAction\<close> (it has the key \<^verbatim>\<open>action_type\<close>) or it is a
  tool record (\<^verbatim>\<open>tool_name\<close>, no \<^verbatim>\<open>action_type\<close>); the code tells them apart with
  \<^verbatim>\<open>'action_type' in moderation\<close>.
\<close>

datatype moderation_info = ModAction ModerationAction | ToolAction string

record analysis_result =
  result_sentiment :: "string option"
  moderation_actions :: "moderation_info list option"

record reply_analysis =
  analysis_reply_id :: string
  analysis_result :: "analysis_result option"

record analyzer_results =
  reply_analyses :: "reply_analysis list option"

record analysis_data =
  reply_analyzer_results :: "analyzer_results option"

section \<open>The decision resolver of the analysis view (App.tsx)\<close>

text \<open>
  The state of \<^verbatim>\<open>HaterAideAnalysis\<close> that moderation reads: the Live map
  \<^verbatim>\<open>moderationActions\<close>, the Preloaded map \<^verbatim>\<open>preloadedModerations\<close>, the fetched
  \<^verbatim>\<open>replyAnalysisData\<close> and the prop \<^verbatim>\<open>replyAnalysisResults\<close>.
\<close>

record analysis_view =
  moderationActions :: "string \<rightharpoonup> ModerationAction"
  preloadedModerations :: "string \<rightharpoonup> ModerationAction"
  replyAnalysisData :: "analysis_data option"
  replyAnalysisResults :: "analyzer_results option"

text \<open>\<^verbatim>\<open>analyses.find(analysis => analysis.reply_id === replyId)\<close>\<close>

definition find_analysis :: "reply_analysis list \<Rightarrow> string \<Rightarrow> reply_analysis option" where
  "find_analysis analyses replyId = find (\<lambda>analysis. analysis_reply_id analysis = replyId) analyses"

text \<open>
  \<^verbatim>\<open>getReplyModerationInfo\<close> (App.tsx 149-167). A stored action is an object and so
  truthy: \<^verbatim>\<open>if (realtimeAction)\<close> is the test that the key is present.
\<close>

definition getReplyModerationInfo :: "analysis_view \<Rightarrow> string \<Rightarrow> moderation_info option" where
  "getReplyModerationInfo v replyId =
     (case moderationActions v replyId of
        Some realtimeAction \<Rightarrow> Some (ModAction realtimeAction)
      | None \<Rightarrow>
     (case preloadedModerations v replyId of
        Some preloadedAction \<Rightarrow> Some (ModAction preloadedAction)
      | None \<Rightarrow>
     (case replyAnalysisResults v of
        None \<Rightarrow> None
      | Some results \<Rightarrow>
     (case reply_analyses results of
        None \<Rightarrow> None
      | Some analyses \<Rightarrow>
         (let actions =
            (case find_analysis analyses replyId of
               None \<Rightarrow> []
             | Some replyAnalysis \<Rightarrow>
                (case analysis_result replyAnalysis of
                   None \<Rightarrow> []
                 | Some res \<Rightarrow>
                    (case moderation_actions res of None \<Rightarrow> [] | Some acts \<Rightarrow> acts)))
          in (case actions of [] \<Rightarrow> None | first # _ \<Rightarrow> Some first))))))"

text \<open>\<^verbatim>\<open>shouldModerateContent\<close> (App.tsx 169-180).\<close>

definition shouldModerateContent :: "analysis_view \<Rightarrow> string \<Rightarrow> action_type option" where
  "shouldModerateContent v replyId =
     (case getReplyModerationInfo v replyId of
        None \<Rightarrow> None
      | Some (ModAction moderation) \<Rightarrow> Some (action_type moderation)
      | Some (ToolAction _) \<Rightarrow> None)"

text \<open>\<^verbatim>\<open>getReplySentiment\<close> of the analysis view (App.tsx 182-191); an empty string is falsy.\<close>

definition getReplySentiment :: "analysis_view \<Rightarrow> string \<Rightarrow> string option" where
  "getReplySentiment v replyId =
     (case replyAnalysisData v of
        None \<Rightarrow> None
      | Some d \<Rightarrow>
     (case reply_analyzer_results d of
        None \<Rightarrow> None
      | Some results \<Rightarrow>
     (case reply_analyses results of
        None \<Rightarrow> None
      | Some analyses \<Rightarrow>
     (case find_analysis analyses replyId of
        None \<Rightarrow> None
      | Some replyAnalysis \<Rightarrow>
     (case analysis_result replyAnalysis of
        None \<Rightarrow> None
      | Some res \<Rightarrow>
     (case result_sentiment res of
        None \<Rightarrow> None
      | Some s \<Rightarrow> if s = [] then None else Some s))))))"

text \<open>
  How the analysis view shows the text of a reply (App.tsx 703-775): the decision is
  \<^verbatim>\<open>shouldModerateContent(reply.id)\<close> and nothing else of the reply is consulted.
\<close>

datatype content_display = HiddenBox | Blurred | Plain

definition content_display :: "analysis_view \<Rightarrow> Reply \<Rightarrow> content_display" where
  "content_display v reply =
     (case shouldModerateContent v (item_id reply) of
        Some Hide \<Rightarrow> HiddenBox
      | Some Blur \<Rightarrow> Blurred
      | None \<Rightarrow> Plain)"

subsection \<open>The preload effect (App.tsx 29-52)\<close>

text \<open>\<^verbatim>\<open>analysis.analysis_result?.sentiment\<close>\<close>

definition analysis_sentiment :: "reply_analysis \<Rightarrow> string option" where
  "analysis_sentiment analysis =
     (case analysis_result analysis of None \<Rightarrow> None | Some res \<Rightarrow> result_sentiment res)"

text \<open>
  The action literal of lines 37-44. \<^verbatim>\<open>new Date().toISOString()\<close> is read from the
  clock at each iteration; the clock is a parameter.
\<close>

definition preloaded_action :: "string \<Rightarrow> string \<Rightarrow> string \<Rightarrow> ModerationAction" where
  "preloaded_action now rid s =
     \<lparr>reply_id = rid,
      action_type = (if s = ''harmful'' then Hide else Blur),
      reason = ''Content flagged as '' @ s @ '' by AI analysis'',
      sentiment = s,
      timestamp = now,
      status = ''applied''\<rparr>"

fun preload_forEach ::
  "(nat \<Rightarrow> string) \<Rightarrow> nat \<Rightarrow> reply_analysis list \<Rightarrow>
   (string \<rightharpoonup> ModerationAction) \<Rightarrow> (string \<rightharpoonup> ModerationAction)" where
  "preload_forEach clock i [] preloadedActions = preloadedActions"
| "preload_forEach clock i (analysis # rest) preloadedActions =
     preload_forEach clock (Suc i) rest
       (case analysis_sentiment analysis of
          None \<Rightarrow> preloadedActions
        | Some s \<Rightarrow>
            if s = ''harmful'' \<or> s = ''unfriendly''
            then preloadedActions(analysis_reply_id analysis \<mapsto>
                   preloaded_action (clock i) (analysis_reply_id analysis) s)
            else preloadedActions)"

text \<open>
  The effect starts from \<^verbatim>\<open>new Map()\<close> and replaces the Preloaded map as a whole; when
  the guard of line 31 fails the state is left as it is.
\<close>

definition preload_effect :: "(nat \<Rightarrow> string) \<Rightarrow> analysis_view \<Rightarrow> analysis_view" where
  "preload_effect clock v =
     (case replyAnalysisData v of
        None \<Rightarrow> v
      | Some d \<Rightarrow>
     (case reply_analyzer_results d of
        None \<Rightarrow> v
      | Some results \<Rightarrow>
     (case reply_analyses results of
        None \<Rightarrow> v
      | Some analyses \<Rightarrow>
          v\<lparr>preloadedModerations := preload_forEach clock 0 analyses Map.empty\<rparr>)))"

text \<open>An analysis entry whose label is \<^verbatim>\<open>harmful\<close> or \<^verbatim>\<open>unfriendly\<close>.\<close>

definition flagged :: "reply_analysis \<Rightarrow> bool" where
  "flagged analysis \<longleftrightarrow>
     analysis_sentiment analysis = Some ''harmful'' \<or>
     analysis_sentiment analysis = Some ''unfriendly''"

section \<open>Values received from the push channel\<close>

text \<open>
  \<^verbatim>\<open>JSON.parse\<close> yields an untyped value, which the channel hands to its listeners
  without any validation. Object properties are kept as an association list read with
  \<open>map_of\<close>.
\<close>

datatype jsv =
    JUndefined
  | JNull
  | JBool bool
  | JNum rat
  | JStr string
  | JArr "jsv list"
  | JObj "(string \<times> jsv) list"

datatype error = SyntaxError | TypeError | Thrown string

fun truthy :: "jsv \<Rightarrow> bool" where
  "truthy JUndefined = False"
| "truthy JNull = False"
| "truthy (JBool b) = b"
| "truthy (JNum n) = (n \<noteq> 0)"
| "truthy (JStr s) = (s \<noteq> [])"
| "truthy (JArr _) = True"
| "truthy (JObj _) = True"

text \<open>
  Property read \<^verbatim>\<open>v.k\<close>: a TypeError on \<^verbatim>\<open>undefined\<close> and \<^verbatim>\<open>null\<close>. The names read
  in this program (\<^verbatim>\<open>type\<close>, \<^verbatim>\<open>action\<close>, \<^verbatim>\<open>reply_id\<close>, \<^verbatim>\<open>action_type\<close>) are not
  properties of primitives or arrays, where the read gives \<^verbatim>\<open>undefined\<close>.
\<close>

fun get_prop :: "jsv \<Rightarrow> string \<Rightarrow> error + jsv" where
  "get_prop JUndefined k = Inl TypeError"
| "get_prop JNull k = Inl TypeError"
| "get_prop (JObj props) k = Inr (case map_of props k of None \<Rightarrow> JUndefined | Some x \<Rightarrow> x)"
| "get_prop v k = Inr JUndefined"

text \<open>Optional chaining \<^verbatim>\<open>v?.k\<close>.\<close>

definition opt_prop :: "jsv \<Rightarrow> string \<Rightarrow> jsv" where
  "opt_prop v k = (case get_prop v k of Inl _ \<Rightarrow> JUndefined | Inr x \<Rightarrow> x)"

text \<open>
  The declared shape of an update: the interfaces \<^verbatim>\<open>ModerationUpdate\<close> and
  \<^verbatim>\<open>ModerationAction\<close> of services/websocket.ts, read as a predicate on untyped values.
\<close>

definition is_string :: "jsv \<Rightarrow> bool" where
  "is_string v = (case v of JStr _ \<Rightarrow> True | _ \<Rightarrow> False)"

definition is_ModerationAction :: "jsv \<Rightarrow> bool" where
  "is_ModerationAction v =
     (case v of
        JObj _ \<Rightarrow>
          is_string (opt_prop v ''reply_id'') \<and>
          opt_prop v ''action_type'' \<in> {JStr ''blur'', JStr ''hide''} \<and>
          is_string (opt_prop v ''reason'') \<and>
          opt_prop v ''sentiment'' \<in> {JStr ''harmful'', JStr ''unfriendly''} \<and>
          is_string (opt_prop v ''timestamp'') \<and>
          is_string (opt_prop v ''status'')
      | _ \<Rightarrow> False)"

definition is_ModerationUpdate :: "jsv \<Rightarrow> bool" where
  "is_ModerationUpdate v =
     (case v of
        JObj _ \<Rightarrow>
          opt_prop v ''type'' = JStr ''content_moderation'' \<and>
          is_ModerationAction (opt_prop v ''action'')
      | _ \<Rightarrow> False)"

section \<open>The Reply component (components/Reply.tsx)\<close>

text \<open>
  A callback either returns or raises; what it did to the state before raising stays done.
\<close>

datatype 'w outcome = Returned 'w | Raised error 'w

text \<open>
  The three \<^verbatim>\<open>useState\<close> cells of one mounted Reply. \<^verbatim>\<open>moderationAction\<close> holds
  whatever the channel delivered, or \<^verbatim>\<open>null\<close>.
\<close>

record reply_state =
  moderationAction :: jsv
  isContentRevealed :: bool
  isMediaRevealed :: bool

definition initial_reply_state :: reply_state where
  "initial_reply_state =
     \<lparr>moderationAction = JNull, isContentRevealed = False, isMediaRevealed = False\<rparr>"

text \<open>The subscription callback of lines 18-24, for the reply with id \<open>rid\<close>.\<close>

definition reply_subscriber :: "string \<Rightarrow> jsv \<Rightarrow> reply_state \<Rightarrow> reply_state outcome" where
  "reply_subscriber rid update st =
     (case get_prop update ''action'' of
        Inl e \<Rightarrow> Raised e st
      | Inr action \<Rightarrow>
     (case get_prop action ''reply_id'' of
        Inl e \<Rightarrow> Raised e st
      | Inr r \<Rightarrow>
          if r = JStr rid
          then Returned (st\<lparr>moderationAction := action,
                             isContentRevealed := False,
                             isMediaRevealed := False\<rparr>)
          else Returned st))"

text \<open>
  \<^verbatim>\<open>getReplySentiment\<close> of the component (lines 31-39), over the prop
  \<^verbatim>\<open>replyAnalysisData\<close>; the default is \<^verbatim>\<open>'unknown'\<close>.
\<close>

definition reply_getReplySentiment :: "analysis_data option \<Rightarrow> string \<Rightarrow> string" where
  "reply_getReplySentiment analysisData replyId =
     (case analysisData of
        None \<Rightarrow> ''unknown''
      | Some d \<Rightarrow>
     (case reply_analyzer_results d of
        None \<Rightarrow> ''unknown''
      | Some results \<Rightarrow>
     (case reply_analyses results of
        None \<Rightarrow> ''unknown''
      | Some analyses \<Rightarrow>
     (case find_analysis analyses replyId of
        None \<Rightarrow> ''unknown''
      | Some replyAnalysis \<Rightarrow>
     (case analysis_sentiment replyAnalysis of
        None \<Rightarrow> ''unknown''
      | Some s \<Rightarrow> if s = [] then ''unknown'' else s)))))"

text \<open>The rule of line 85 applied when there is no stored action.\<close>

definition sentiment_default :: "string \<Rightarrow> jsv" where
  "sentiment_default s =
     (if s = ''harmful'' then JStr ''hide''
      else if s = ''unfriendly'' then JStr ''blur''
      else JNull)"

text \<open>\<^verbatim>\<open>moderationType\<close> (line 85).\<close>

definition moderationType :: "reply_state \<Rightarrow> string \<Rightarrow> jsv" where
  "moderationType st s =
     (let t = opt_prop (moderationAction st) ''action_type''
      in if truthy t then t else sentiment_default s)"

text \<open>
  What the component renders (lines 92-300): the placeholder of lines 93-116, or the
  reply with its text and its media each plain, blurred or covered.
\<close>

datatype text_view = TextBlurred | TextPlain | NoText

datatype media_view = MediaHidden | MediaBlurred | MediaPlain | NoMedia

datatype reply_view = ContentHidden | Shown text_view media_view

definition has_media :: "Reply \<Rightarrow> bool" where
  "has_media reply = (case media_url reply of None \<Rightarrow> False | Some u \<Rightarrow> u \<noteq> [])"

definition render_text :: "Reply \<Rightarrow> jsv \<Rightarrow> reply_state \<Rightarrow> text_view" where
  "render_text reply mt st =
     (let body = (if mt = JStr ''blur'' \<and> \<not> isContentRevealed st then TextBlurred else TextPlain)
      in case item_type reply of
           TextReply \<Rightarrow> body
         | ImageReply \<Rightarrow> if has_media reply \<and> content reply \<noteq> [] then body else NoText
         | GifReply \<Rightarrow> NoText)"

definition render_media :: "Reply \<Rightarrow> jsv \<Rightarrow> reply_state \<Rightarrow> media_view" where
  "render_media reply mt st =
     (let media = (if truthy mt \<and> \<not> isMediaRevealed st
                   then (if mt = JStr ''hide'' then MediaHidden else MediaBlurred)
                   else MediaPlain)
      in case item_type reply of
           TextReply \<Rightarrow> NoMedia
         | ImageReply \<Rightarrow> if has_media reply then media else NoMedia
         | GifReply \<Rightarrow> if has_media reply then media else NoMedia)"

definition Reply_render :: "Reply \<Rightarrow> analysis_data option \<Rightarrow> reply_state \<Rightarrow> reply_view" where
  "Reply_render reply analysisData st =
     (let s = reply_getReplySentiment analysisData (item_id reply);
          mt = moderationType st s
      in if hidden reply \<or> (mt = JStr ''hide'' \<and> \<not> isContentRevealed st)
         then ContentHidden
         else Shown (render_text reply mt st) (render_media reply mt st))"

section \<open>The push channel (services/websocket.ts)\<close>

type_synonym 'w listener = "jsv \<Rightarrow> 'w \<Rightarrow> 'w outcome"

datatype readyState = CONNECTING | OPEN | CLOSING | CLOSED

text \<open>
  The four private fields of \<^verbatim>\<open>WebSocketService\<close>, followed by what the service reaches
  in its environment. \<^verbatim>\<open>ws\<close> refers to a socket by its position in \<open>sockets\<close>, the
  list of all \<^verbatim>\<open>WebSocket\<close> objects constructed so far with their ready states:
  a socket that the service no longer refers to still exists and still has its handlers.
  \<open>timers\<close> are the pending timeouts (handle and delay); handles are positive, as
  \<^verbatim>\<open>setTimeout\<close> issues them. \<^verbatim>\<open>listeners\<close> is a \<^verbatim>\<open>Map\<close>: keys are unique and
  iteration follows insertion order. \<open>world\<close> is the state that the callbacks act on,
  and \<open>invoked\<close> records the subscription id of every callback invocation.
\<close>

record 'w channel =
  ws :: "nat option"
  reconnectTimer :: "nat option"
  listeners :: "(string \<times> 'w listener) list"
  isConnecting :: bool
  sockets :: "readyState list"
  timers :: "(nat \<times> nat) list"
  timer_count :: nat
  world :: 'w
  invoked :: "string list"

definition initial_channel :: "'w \<Rightarrow> 'w channel" where
  "initial_channel w =
     \<lparr>ws = None, reconnectTimer = None, listeners = [], isConnecting = False,
      sockets = [], timers = [], timer_count = 0, world = w, invoked = []\<rparr>"

text \<open>The service's own fields, as opposed to its environment.\<close>

definition internal ::
  "'w channel \<Rightarrow> nat option \<times> nat option \<times> (string \<times> 'w listener) list \<times> bool" where
  "internal s = (ws s, reconnectTimer s, listeners s, isConnecting s)"

definition reconnectInterval :: nat where
  "reconnectInterval = 5000"

text \<open>\<^verbatim>\<open>Map.prototype.set\<close> and \<^verbatim>\<open>Map.prototype.delete\<close>.\<close>

fun map_set :: "(string \<times> 'v) list \<Rightarrow> string \<Rightarrow> 'v \<Rightarrow> (string \<times> 'v) list" where
  "map_set [] k v = [(k, v)]"
| "map_set (p # rest) k v = (if fst p = k then (k, v) # rest else p # map_set rest k v)"

definition map_delete :: "(string \<times> 'v) list \<Rightarrow> string \<Rightarrow> (string \<times> 'v) list" where
  "map_delete m k = [p \<leftarrow> m. fst p \<noteq> k]"

definition readyState_of :: "'w channel \<Rightarrow> nat \<Rightarrow> readyState option" where
  "readyState_of s i = (if i < length (sockets s) then Some (sockets s ! i) else None)"

text \<open>\<^verbatim>\<open>this.ws?.readyState === WebSocket.OPEN\<close>\<close>

definition ws_is_open :: "'w channel \<Rightarrow> bool" where
  "ws_is_open s = (case ws s of None \<Rightarrow> False | Some i \<Rightarrow> readyState_of s i = Some OPEN)"

text \<open>\<^verbatim>\<open>clearReconnectTimer\<close> (lines 166-171); the handle \<^verbatim>\<open>0\<close> would be falsy.\<close>

definition clearReconnectTimer :: "'w channel \<Rightarrow> 'w channel" where
  "clearReconnectTimer s =
     (case reconnectTimer s of
        None \<Rightarrow> s
      | Some t \<Rightarrow>
          if t = 0 then s
          else s\<lparr>timers := [p \<leftarrow> timers s. fst p \<noteq> t], reconnectTimer := None\<rparr>)"

text \<open>\<^verbatim>\<open>scheduleReconnect\<close> (lines 159-164).\<close>

definition scheduleReconnect :: "'w channel \<Rightarrow> 'w channel" where
  "scheduleReconnect s =
     (let s1 = clearReconnectTimer s;
          t = Suc (timer_count s1)
      in s1\<lparr>timers := timers s1 @ [(t, reconnectInterval)],
             timer_count := t,
             reconnectTimer := Some t\<rparr>)"

text \<open>
  \<^verbatim>\<open>connect\<close> (lines 119-157). \<open>constructed\<close> says whether \<^verbatim>\<open>new WebSocket(wsUrl)\<close>
  returns a socket; when it throws, the \<^verbatim>\<open>catch\<close> of lines 153-156 runs.
\<close>

definition connect :: "bool \<Rightarrow> 'w channel \<Rightarrow> 'w channel" where
  "connect constructed s =
     (if ws_is_open s \<or> isConnecting s then s
      else
        (let s1 = s\<lparr>isConnecting := True\<rparr>
         in if constructed
            then s1\<lparr>sockets := sockets s1 @ [CONNECTING], ws := Some (length (sockets s1))\<rparr>
            else scheduleReconnect (s1\<lparr>isConnecting := False\<rparr>)))"

text \<open>
  \<^verbatim>\<open>notifyListeners\<close> (lines 190-197): the \<^verbatim>\<open>try\<close> is inside the loop body, so a
  callback that raises ends its own iteration only.
\<close>

fun forEach_listener :: "(string \<times> 'w listener) list \<Rightarrow> jsv \<Rightarrow> 'w \<Rightarrow> string list \<times> 'w" where
  "forEach_listener [] data w = ([], w)"
| "forEach_listener (l # rest) data w =
     (case forEach_listener rest data
             (case snd l data w of Returned w' \<Rightarrow> w' | Raised e w' \<Rightarrow> w') of
        (calls, w'') \<Rightarrow> (fst l # calls, w''))"

definition notifyListeners :: "jsv \<Rightarrow> 'w channel \<Rightarrow> 'w channel" where
  "notifyListeners data s =
     (case forEach_listener (listeners s) data (world s) of
        (calls, w') \<Rightarrow> s\<lparr>world := w', invoked := invoked s @ calls\<rparr>)"

subsection \<open>The socket's handlers (lines 130-152)\<close>

definition onopen :: "'w channel \<Rightarrow> 'w channel" where
  "onopen s = clearReconnectTimer (s\<lparr>isConnecting := False\<rparr>)"

text \<open>
  \<^verbatim>\<open>onmessage\<close>. The text of a message is represented by what \<^verbatim>\<open>JSON.parse\<close> makes
  of it: \<open>None\<close> when it throws a SyntaxError. \<open>onmessage_try\<close> is the \<^verbatim>\<open>try\<close> block,
  and the empty \<^verbatim>\<open>catch\<close> keeps the state of before.
\<close>

definition onmessage_try :: "jsv option \<Rightarrow> 'w channel \<Rightarrow> error + 'w channel" where
  "onmessage_try parsed s =
     (case parsed of
        None \<Rightarrow> Inl SyntaxError
      | Some data \<Rightarrow>
     (case get_prop data ''type'' of
        Inl e \<Rightarrow> Inl e
      | Inr t \<Rightarrow>
          if t = JStr ''content_moderation'' then Inr (notifyListeners data s) else Inr s))"

definition onmessage :: "jsv option \<Rightarrow> 'w channel \<Rightarrow> 'w channel" where
  "onmessage parsed s = (case onmessage_try parsed s of Inl e \<Rightarrow> s | Inr s' \<Rightarrow> s')"

definition onerror :: "'w channel \<Rightarrow> 'w channel" where
  "onerror s = s\<lparr>isConnecting := False\<rparr>"

definition onclose :: "'w channel \<Rightarrow> 'w channel" where
  "onclose s = scheduleReconnect (s\<lparr>isConnecting := False\<rparr>)"

subsection \<open>The public operations (lines 173-188)\<close>

text \<open>
  \<^verbatim>\<open>WebSocket.close()\<close> starts the closing of a socket that is connecting or open and does
  nothing otherwise; the socket reaches \<^verbatim>\<open>CLOSED\<close> later, with its close event.
\<close>

definition socket_close :: "nat \<Rightarrow> 'w channel \<Rightarrow> 'w channel" where
  "socket_close i s =
     (if readyState_of s i = Some CONNECTING \<or> readyState_of s i = Some OPEN
      then s\<lparr>sockets := (sockets s)[i := CLOSING]\<rparr>
      else s)"

definition disconnect :: "'w channel \<Rightarrow> 'w channel" where
  "disconnect s =
     (let s1 = clearReconnectTimer s;
          s2 = (case ws s1 of
                  None \<Rightarrow> s1
                | Some i \<Rightarrow> (socket_close i s1)\<lparr>ws := None\<rparr>)
      in s2\<lparr>listeners := []\<rparr>)"

definition subscribe :: "string \<Rightarrow> 'w listener \<Rightarrow> 'w channel \<Rightarrow> 'w channel" where
  "subscribe k callback s = s\<lparr>listeners := map_set (listeners s) k callback\<rparr>"

definition unsubscribe :: "string \<Rightarrow> 'w channel \<Rightarrow> 'w channel" where
  "unsubscribe k s = s\<lparr>listeners := map_delete (listeners s) k\<rparr>"

subsection \<open>The event loop\<close>

text \<open>
  One event is one task of the single-threaded loop: a call of a public operation, an
  event of a socket, or the firing of a pending timeout, whose callback calls
  \<^verbatim>\<open>connect\<close>. A socket event is taken only in a ready state where the WebSocket API
  can deliver it; an open or close event moves the socket to its new ready state before
  the handler runs. A connection failure is an error event followed by a close event.
\<close>

datatype 'w event =
    Connect bool
  | Disconnect
  | Subscribe string "'w listener"
  | Unsubscribe string
  | SocketOpen nat
  | SocketMessage nat "jsv option"
  | SocketError nat
  | SocketClose nat
  | TimerFires nat bool

definition live_socket :: "'w channel \<Rightarrow> nat \<Rightarrow> bool" where
  "live_socket s i \<longleftrightarrow>
     readyState_of s i = Some CONNECTING \<or> readyState_of s i = Some OPEN \<or>
     readyState_of s i = Some CLOSING"

fun step :: "'w event \<Rightarrow> 'w channel \<Rightarrow> 'w channel" where
  "step (Connect constructed) s = connect constructed s"
| "step Disconnect s = disconnect s"
| "step (Subscribe k callback) s = subscribe k callback s"
| "step (Unsubscribe k) s = unsubscribe k s"
| "step (SocketOpen i) s =
     (if readyState_of s i = Some CONNECTING
      then onopen (s\<lparr>sockets := (sockets s)[i := OPEN]\<rparr>) else s)"
| "step (SocketMessage i parsed) s =
     (if readyState_of s i = Some OPEN then onmessage parsed s else s)"
| "step (SocketError i) s = (if live_socket s i then onerror s else s)"
| "step (SocketClose i) s =
     (if live_socket s i then onclose (s\<lparr>sockets := (sockets s)[i := CLOSED]\<rparr>) else s)"
| "step (TimerFires t constructed) s =
     (if t \<in> fst ` set (timers s)
      then connect constructed (s\<lparr>timers := [p \<leftarrow> timers s. fst p \<noteq> t]\<rparr>) else s)"

fun run :: "'w event list \<Rightarrow> 'w channel \<Rightarrow> 'w channel" where
  "run [] s = s"
| "run (e # es) s = run es (step e s)"

text \<open>
  At most one timeout is pending, and it is the one the service holds: its handle is in
  \<^verbatim>\<open>reconnectTimer\<close> and its delay is \<^verbatim>\<open>reconnectInterval\<close>.
\<close>

definition single_timer :: "'w channel \<Rightarrow> bool" where
  "single_timer s =
     (case timers s of
        [] \<Rightarrow> True
      | p # rest \<Rightarrow>
          rest = [] \<and> fst p \<noteq> 0 \<and> snd p = reconnectInterval \<and>
          reconnectTimer s = Some (fst p))"

subsection \<open>The subscription of a mounted Reply (Reply.tsx 15-29)\<close>

text \<open>
  The callbacks of the Reply components act on the component states, one per reply id.
  The callback of reply \<open>rid\<close> is registered under \<^verbatim>\<open>`reply-${reply.id}`\<close>.
\<close>

definition reply_listener :: "string \<Rightarrow> (string \<Rightarrow> reply_state) listener" where
  "reply_listener rid update w =
     (case reply_subscriber rid update (w rid) of
        Returned st \<Rightarrow> Returned (w(rid := st))
      | Raised e st \<Rightarrow> Raised e (w(rid := st)))"

definition subscriptionId :: "string \<Rightarrow> string" where
  "subscriptionId rid = ''reply-'' @ rid"

definition reply_listeners :: "string list \<Rightarrow> (string \<times> (string \<Rightarrow> reply_state) listener) list" where
  "reply_listeners rids = map (\<lambda>rid. (subscriptionId rid, reply_listener rid)) rids"

text \<open>\<^verbatim>\<open>update.action.reply_id === reply.id\<close>, false also when the read raises.\<close>

definition targets :: "jsv \<Rightarrow> string \<Rightarrow> bool" where
  "targets update rid =
     (case get_prop update ''action'' of
        Inl _ \<Rightarrow> False
      | Inr action \<Rightarrow> get_prop action ''reply_id'' = Inr (JStr rid))"

section \<open>Concrete scenarios\<close>

text \<open>
  A payload with one harmful, one unfriendly and one friendly entry, and the analysis view
  that has fetched it but whose preload effect has not run yet (an effect runs after the
  render that follows \<^verbatim>\<open>setReplyAnalysisData\<close>).
\<close>

definition entry :: "string \<Rightarrow> string \<Rightarrow> reply_analysis" where
  "entry rid s =
     \<lparr>analysis_reply_id = rid,
      analysis_result = Some \<lparr>result_sentiment = Some s, moderation_actions = None\<rparr>\<rparr>"

definition payload_analyses :: "reply_analysis list" where
  "payload_analyses =
     [entry ''r1'' ''harmful'', entry ''r2'' ''unfriendly'', entry ''r3'' ''friendly'']"

definition payload_results :: analyzer_results where
  "payload_results = \<lparr>reply_analyses = Some payload_analyses\<rparr>"

definition payload :: analysis_data where
  "payload = \<lparr>reply_analyzer_results = Some payload_results\<rparr>"

definition fetched_view :: analysis_view where
  "fetched_view =
     \<lparr>moderationActions = Map.empty,
      preloadedModerations = Map.empty,
      replyAnalysisData = Some payload,
      replyAnalysisResults = None\<rparr>"

text \<open>The same view once a Live action for \<^verbatim>\<open>r2\<close> has arrived after the preload.\<close>

definition live_view :: analysis_view where
  "live_view =
     (preload_effect (\<lambda>i. ''t0'') fetched_view)
       \<lparr>moderationActions :=
          [''r2'' \<mapsto> \<lparr>reply_id = ''r2'', action_type = Hide, reason = ''escalated'',
                        sentiment = ''harmful'', timestamp = ''t1'', status = ''applied''\<rparr>]\<rparr>"

text \<open>A harmful reply, and a reply that its own data flags as hidden.\<close>

definition harmful_reply :: Reply where
  "harmful_reply =
     \<lparr>item_id = ''r1'', item_type = TextReply, content = ''text'', media_url = None,
      item_sentiment = ''harmful'', hidden = False\<rparr>"

definition hidden_reply :: Reply where
  "hidden_reply =
     \<lparr>item_id = ''r3'', item_type = TextReply, content = ''text'', media_url = None,
      item_sentiment = ''friendly'', hidden = True\<rparr>"

text \<open>
  A channel with an open connection and three subscribers, the first of which always
  raises; an update for \<^verbatim>\<open>r1\<close>, a message of another type, and an envelope with the right
  discriminator and no action.
\<close>

definition raising_listener :: "'w listener" where
  "raising_listener update w = Raised (Thrown ''listener failed'') w"

definition open_channel :: "(string \<Rightarrow> reply_state) channel" where
  "open_channel =
     run [Connect True, SocketOpen 0,
          Subscribe ''faulty'' raising_listener,
          Subscribe (subscriptionId ''r1'') (reply_listener ''r1''),
          Subscribe (subscriptionId ''r2'') (reply_listener ''r2'')]
       (initial_channel (\<lambda>rid. initial_reply_state))"

definition action_r1 :: jsv where
  "action_r1 =
     JObj [(''reply_id'', JStr ''r1''), (''action_type'', JStr ''hide''),
           (''reason'', JStr ''harmful language''), (''sentiment'', JStr ''harmful''),
           (''timestamp'', JStr ''t1''), (''status'', JStr ''applied'')]"

definition update_r1 :: jsv where
  "update_r1 = JObj [(''type'', JStr ''content_moderation''), (''action'', action_r1)]"

definition ping :: jsv where
  "ping = JObj [(''type'', JStr ''ping'')]"

definition bare_envelope :: jsv where
  "bare_envelope = JObj [(''type'', JStr ''content_moderation'')]"

text \<open>
  A view with no analysis data and no entry in the Live or Preloaded map, whose prop
  \<^verbatim>\<open>replyAnalysisResults\<close> lists a hide action for the friendly \<^verbatim>\<open>r3\<close> and a tool
  record for the harmful \<^verbatim>\<open>r1\<close>.
\<close>

definition fallback_results :: analyzer_results where
  "fallback_results =
     \<lparr>reply_analyses = Some
        [\<lparr>analysis_reply_id = ''r3'',
          analysis_result = Some
            \<lparr>result_sentiment = Some ''friendly'',
             moderation_actions = Some
               [ModAction \<lparr>reply_id = ''r3'', action_type = Hide, reason = ''manual'',
                           sentiment = ''harmful'', timestamp = ''t2'', status = ''applied''\<rparr>,
                ToolAction ''minimize_media_content'']\<rparr>\<rparr>,
         \<lparr>analysis_reply_id = ''r1'',
          analysis_result = Some
            \<lparr>result_sentiment = Some ''harmful'',
             moderation_actions = Some [ToolAction ''blur_text_content'']\<rparr>\<rparr>]\<rparr>"

definition fallback_view :: analysis_view where
  "fallback_view =
     \<lparr>moderationActions = Map.empty,
      preloadedModerations = Map.empty,
      replyAnalysisData = None,
      replyAnalysisResults = Some fallback_results\<rparr>"

text \<open>
  An envelope with the right discriminator whose action names \<^verbatim>\<open>r1\<close> and has no other
  field.
\<close>

definition malformed_update :: jsv where
  "malformed_update =
     JObj [(''type'', JStr ''content_moderation''),
           (''action'', JObj [(''reply_id'', JStr ''r1'')])]"

section \<open>Precedence of the Live layer\<close>

text \<open>
  Claim C1. For every content item that has both a Live action (an entry of
  \<^verbatim>\<open>moderationActions\<close>) and a Preloaded action (an entry of \<^verbatim>\<open>preloadedModerations\<close>),
  \<^verbatim>\<open>getReplyModerationInfo\<close> returns the Live action, whatever the Preloaded action is.
\<close>

theorem live_overrides_preloaded:
  assumes "moderationActions v replyId = Some live"
    and "preloadedModerations v replyId = Some pre"
  shows "getReplyModerationInfo v replyId = Some (ModAction live) \<and>
         shouldModerateContent v replyId = Some (action_type live)"
  using assms by (simp add: getReplyModerationInfo_def shouldModerateContent_def)

theorem live_overrides_preloaded_witness:
  "(\<exists>live. moderationActions live_view ''r2'' = Some live) \<and>
   (\<exists>pre. preloadedModerations live_view ''r2'' = Some pre \<and> action_type pre = Blur) \<and>
   shouldModerateContent live_view ''r2'' = Some Hide"
proof -
  let ?live = "\<lparr>reply_id = ''r2'', action_type = Hide, reason = ''escalated'',
                 sentiment = ''harmful'', timestamp = ''t1'', status = ''applied''\<rparr>"
  let ?pre = "preloaded_action ''t0'' ''r2'' ''unfriendly''"
  have l: "moderationActions live_view ''r2'' = Some ?live"
    by (simp add: live_view_def)
  have p: "preloadedModerations live_view ''r2'' = Some ?pre"
    by (simp add: live_view_def preload_effect_def fetched_view_def payload_def
        payload_results_def payload_analyses_def entry_def analysis_sentiment_def)
  from live_overrides_preloaded[OF l p] l p show ?thesis
    by (simp add: preloaded_action_def)
qed

section \<open>The Preloaded mapping\<close>

lemmas scenario_defs =
  fetched_view_def payload_def payload_results_def payload_analyses_def entry_def

lemma preload_forEach_other:
  "k \<notin> analysis_reply_id ` set analyses \<Longrightarrow>
   preload_forEach clock i analyses acc k = acc k"
  by (induction analyses arbitrary: i acc) (auto split: option.splits)

lemma preload_forEach_dom:
  "dom (preload_forEach clock i analyses acc) =
   dom acc \<union> {analysis_reply_id e |e. e \<in> set analyses \<and> flagged e}"
proof (induction analyses arbitrary: i acc)
  case Nil
  then show ?case by simp
next
  case (Cons a analyses)
  show ?case
    unfolding preload_forEach.simps Cons.IH
    by (auto simp: flagged_def split: option.splits if_splits)
qed

lemma preload_forEach_value:
  "preload_forEach clock i analyses acc k = Some a \<Longrightarrow>
   acc k = Some a \<or>
   (\<exists>e \<in> set analyses. analysis_reply_id e = k \<and> reply_id a = k \<and>
      ((analysis_sentiment e = Some ''harmful'' \<and> action_type a = Hide) \<or>
       (analysis_sentiment e = Some ''unfriendly'' \<and> action_type a = Blur)))"
proof (induction analyses arbitrary: i acc)
  case Nil
  then show ?case by simp
next
  case (Cons x analyses)
  from Cons.prems have "preload_forEach clock (Suc i) analyses
       (case analysis_sentiment x of
          None \<Rightarrow> acc
        | Some s \<Rightarrow>
            if s = ''harmful'' \<or> s = ''unfriendly''
            then acc(analysis_reply_id x \<mapsto>
                   preloaded_action (clock i) (analysis_reply_id x) s)
            else acc) k = Some a" by simp
  from Cons.IH[OF this] show ?case
    by (auto simp: preloaded_action_def split: option.splits if_splits)
qed

text \<open>
  Claim C4. When the batch analysis payload is loaded, the Preloaded mapping is built so
  that an item id is a key exactly when an analysis entry for it is labelled harmful or
  unfriendly; every stored action is a hide action from a harmful entry or a blur action
  from an unfriendly entry; and, item ids being unique in the payload, each harmful entry
  maps to hide, each unfriendly entry to blur, and each other entry is absent.
\<close>

theorem preload_builds_mapping:
  assumes "replyAnalysisData v = Some d"
    and "reply_analyzer_results d = Some results"
    and "reply_analyses results = Some analyses"
  shows "(\<forall>k. k \<in> dom (preloadedModerations (preload_effect clock v)) \<longleftrightarrow>
              (\<exists>e \<in> set analyses. analysis_reply_id e = k \<and> flagged e)) \<and>
         (\<forall>k a. preloadedModerations (preload_effect clock v) k = Some a \<longrightarrow>
              (\<exists>e \<in> set analyses. analysis_reply_id e = k \<and>
                 ((analysis_sentiment e = Some ''harmful'' \<and> action_type a = Hide) \<or>
                  (analysis_sentiment e = Some ''unfriendly'' \<and> action_type a = Blur)))) \<and>
         (distinct (map analysis_reply_id analyses) \<longrightarrow>
            (\<forall>e \<in> set analyses.
               (analysis_sentiment e = Some ''harmful'' \<longrightarrow>
                  (\<exists>a. preloadedModerations (preload_effect clock v) (analysis_reply_id e) = Some a \<and>
                       action_type a = Hide)) \<and>
               (analysis_sentiment e = Some ''unfriendly'' \<longrightarrow>
                  (\<exists>a. preloadedModerations (preload_effect clock v) (analysis_reply_id e) = Some a \<and>
                       action_type a = Blur)) \<and>
               (\<not> flagged e \<longrightarrow>
                  preloadedModerations (preload_effect clock v) (analysis_reply_id e) = None)))"
proof -
  define m where "m = preload_forEach clock 0 analyses Map.empty"
  have eff: "preloadedModerations (preload_effect clock v) = m"
    using assms by (simp add: preload_effect_def m_def)
  have keys: "k \<in> dom m \<longleftrightarrow> (\<exists>e \<in> set analyses. analysis_reply_id e = k \<and> flagged e)" for k
    unfolding m_def preload_forEach_dom by auto
  have vals: "\<exists>e \<in> set analyses. analysis_reply_id e = k \<and>
                 ((analysis_sentiment e = Some ''harmful'' \<and> action_type a = Hide) \<or>
                  (analysis_sentiment e = Some ''unfriendly'' \<and> action_type a = Blur))"
    if "m k = Some a" for k a
    using preload_forEach_value[OF that[unfolded m_def]] by auto
  have uniq: "e' = e"
    if "distinct (map analysis_reply_id analyses)" "e \<in> set analyses" "e' \<in> set analyses"
      "analysis_reply_id e' = analysis_reply_id e" for e e'
    using that by (meson distinct_map inj_onD)
  have per_entry:
    "(analysis_sentiment e = Some ''harmful'' \<longrightarrow>
        (\<exists>a. m (analysis_reply_id e) = Some a \<and> action_type a = Hide)) \<and>
     (analysis_sentiment e = Some ''unfriendly'' \<longrightarrow>
        (\<exists>a. m (analysis_reply_id e) = Some a \<and> action_type a = Blur)) \<and>
     (\<not> flagged e \<longrightarrow> m (analysis_reply_id e) = None)"
    if d: "distinct (map analysis_reply_id analyses)" and e: "e \<in> set analyses" for e
  proof (cases "flagged e")
    case True
    with e have "analysis_reply_id e \<in> dom m" using keys by blast
    then obtain a where a: "m (analysis_reply_id e) = Some a" by blast
    from vals[OF a] obtain e' where e': "e' \<in> set analyses"
      "analysis_reply_id e' = analysis_reply_id e"
      "(analysis_sentiment e' = Some ''harmful'' \<and> action_type a = Hide) \<or>
       (analysis_sentiment e' = Some ''unfriendly'' \<and> action_type a = Blur)" by blast
    from uniq[OF d e e'(1) e'(2)] have "e' = e" .
    with e'(3) a True show ?thesis by auto
  next
    case False
    have "analysis_reply_id e \<notin> dom m"
    proof
      assume "analysis_reply_id e \<in> dom m"
      then obtain e' where e': "e' \<in> set analyses"
        "analysis_reply_id e' = analysis_reply_id e" "flagged e'" using keys by blast
      from uniq[OF d e e'(1) e'(2)] e'(3) False show False by simp
    qed
    with False show ?thesis by (auto simp: flagged_def)
  qed
  show ?thesis
    unfolding eff using keys vals per_entry by blast
qed

theorem preload_builds_mapping_witness:
  "replyAnalysisData fetched_view = Some payload \<and>
   reply_analyzer_results payload = Some payload_results \<and>
   reply_analyses payload_results = Some payload_analyses \<and>
   distinct (map analysis_reply_id payload_analyses) \<and>
   (\<exists>a. preloadedModerations (preload_effect (\<lambda>i. ''t0'') fetched_view) ''r1'' = Some a \<and>
        action_type a = Hide) \<and>
   (\<exists>a. preloadedModerations (preload_effect (\<lambda>i. ''t0'') fetched_view) ''r2'' = Some a \<and>
        action_type a = Blur) \<and>
   preloadedModerations (preload_effect (\<lambda>i. ''t0'') fetched_view) ''r3'' = None"
proof -
  have h1: "replyAnalysisData fetched_view = Some payload"
    by (simp add: fetched_view_def)
  have h2: "reply_analyzer_results payload = Some payload_results"
    by (simp add: payload_def)
  have h3: "reply_analyses payload_results = Some payload_analyses"
    by (simp add: payload_results_def)
  have dist: "distinct (map analysis_reply_id payload_analyses)"
    by (simp add: payload_analyses_def entry_def)
  from preload_builds_mapping[OF h1 h2 h3, of "\<lambda>i. ''t0''"] dist
  have "\<forall>e \<in> set payload_analyses.
               (analysis_sentiment e = Some ''harmful'' \<longrightarrow>
                  (\<exists>a. preloadedModerations (preload_effect (\<lambda>i. ''t0'') fetched_view) (analysis_reply_id e) = Some a \<and>
                       action_type a = Hide)) \<and>
               (analysis_sentiment e = Some ''unfriendly'' \<longrightarrow>
                  (\<exists>a. preloadedModerations (preload_effect (\<lambda>i. ''t0'') fetched_view) (analysis_reply_id e) = Some a \<and>
                       action_type a = Blur)) \<and>
               (\<not> flagged e \<longrightarrow>
                  preloadedModerations (preload_effect (\<lambda>i. ''t0'') fetched_view) (analysis_reply_id e) = None)"
    by blast
  then have "(\<exists>a. preloadedModerations (preload_effect (\<lambda>i. ''t0'') fetched_view) ''r1'' = Some a \<and>
        action_type a = Hide) \<and>
   (\<exists>a. preloadedModerations (preload_effect (\<lambda>i. ''t0'') fetched_view) ''r2'' = Some a \<and>
        action_type a = Blur) \<and>
   preloadedModerations (preload_effect (\<lambda>i. ''t0'') fetched_view) ''r3'' = None"
    by (simp add: payload_analyses_def entry_def analysis_sentiment_def flagged_def)
  with h1 h2 h3 dist show ?thesis by blast
qed

section \<open>The hidden flag\<close>

text \<open>
  The analysis view decides from the reply id alone, so a reply flagged hidden whose id has
  no entry in any layer is shown in plain: Claim C2 does not hold of that view.
\<close>

theorem hidden_flag_not_read_by_analysis_view:
  "hidden hidden_reply \<and>
   content_display (preload_effect (\<lambda>i. ''t0'') fetched_view) hidden_reply = Plain"
  by (simp add: hidden_reply_def content_display_def shouldModerateContent_def
      getReplyModerationInfo_def preload_effect_def scenario_defs analysis_sentiment_def)

text \<open>
  Claim C2, as the code has it. For every content item whose own data carries
  \<^verbatim>\<open>hidden = true\<close>, the Reply component renders the content-hidden placeholder, whatever
  the stored Live action, the sentiment found in the analysis data and the revealed flags
  are; the analysis view never reads the flag.
\<close>

theorem hidden_reply_always_covered:
  assumes "hidden reply"
  shows "Reply_render reply analysisData st = ContentHidden \<and>
         content_display v (reply\<lparr>hidden := False\<rparr>) = content_display v reply"
  using assms by (simp add: Reply_render_def Let_def content_display_def)

theorem hidden_reply_always_covered_witness:
  "hidden hidden_reply \<and>
   Reply_render hidden_reply (Some payload)
     \<lparr>moderationAction = JNull, isContentRevealed = True, isMediaRevealed = True\<rparr> = ContentHidden"
  using hidden_reply_always_covered[of hidden_reply "Some payload"
      "\<lparr>moderationAction = JNull, isContentRevealed = True, isMediaRevealed = True\<rparr>"]
  by (simp add: hidden_reply_def)

section \<open>Defaults from the sentiment label\<close>

text \<open>
  In the analysis view an item labelled harmful, with no Live and no Preloaded entry, is not
  moderated, be it before the preload effect has run or when no analysis data was fetched
  at all: Claim C3 does not hold of \<^verbatim>\<open>shouldModerateContent\<close>.
\<close>

theorem no_sentiment_default_in_analysis_view:
  "moderationActions fetched_view ''r1'' = None \<and>
   preloadedModerations fetched_view ''r1'' = None \<and>
   item_id harmful_reply = ''r1'' \<and>
   item_sentiment harmful_reply = ''harmful'' \<and>
   getReplySentiment fetched_view ''r1'' = Some ''harmful'' \<and>
   shouldModerateContent fetched_view ''r1'' = None \<and>
   shouldModerateContent (fetched_view\<lparr>replyAnalysisData := None\<rparr>) (item_id harmful_reply) = None"
  by (simp add: harmful_reply_def shouldModerateContent_def getReplySentiment_def
      getReplyModerationInfo_def scenario_defs find_analysis_def)

text \<open>
  Claim C3, as the code has it. In the Reply component, when no Live action is stored, the
  moderation type follows the sentiment found for the reply in the analysis data: harmful
  gives hide, unfriendly gives blur, and any other label (also the default
  \<^verbatim>\<open>unknown\<close> of an absent entry) gives none. In the analysis view, an item with no Live
  and no Preloaded entry is resolved without reading any sentiment label: to the first
  element of \<^verbatim>\<open>moderation_actions\<close> of the first entry for the item in
  \<^verbatim>\<open>replyAnalysisResults\<close>, whose action type is the decision when the element is a
  moderation action, and to none when the element is a tool record or when the results,
  the entry, its analysis result or its actions are missing or the list is empty.
\<close>

theorem default_from_sentiment:
  assumes "moderationAction st = JNull"
  shows "moderationType st s =
           (if s = ''harmful'' then JStr ''hide''
            else if s = ''unfriendly'' then JStr ''blur''
            else JNull) \<and>
         moderationType st (reply_getReplySentiment None replyId) = JNull \<and>
         (moderationActions v replyId = None \<longrightarrow> preloadedModerations v replyId = None \<longrightarrow>
            shouldModerateContent (v\<lparr>replyAnalysisData := d\<rparr>) replyId =
              shouldModerateContent v replyId \<and>
            (replyAnalysisResults v = None \<longrightarrow> shouldModerateContent v replyId = None) \<and>
            (replyAnalysisResults v = Some results \<longrightarrow>
               (reply_analyses results = None \<longrightarrow> getReplyModerationInfo v replyId = None) \<and>
               (reply_analyses results = Some analyses \<longrightarrow>
                  (find_analysis analyses replyId = None \<longrightarrow>
                     getReplyModerationInfo v replyId = None) \<and>
                  (find_analysis analyses replyId = Some replyAnalysis \<longrightarrow>
                     (analysis_result replyAnalysis = None \<longrightarrow>
                        getReplyModerationInfo v replyId = None) \<and>
                     (analysis_result replyAnalysis = Some res \<longrightarrow>
                        (moderation_actions res = None \<or> moderation_actions res = Some [] \<longrightarrow>
                           getReplyModerationInfo v replyId = None) \<and>
                        (moderation_actions res = Some (first # rest) \<longrightarrow>
                           getReplyModerationInfo v replyId = Some first \<and>
                           shouldModerateContent v replyId =
                             (case first of
                                ModAction moderation \<Rightarrow> Some (action_type moderation)
                              | ToolAction tool \<Rightarrow> None)))))))"
  using assms
  by (auto simp: moderationType_def opt_prop_def sentiment_default_def
      reply_getReplySentiment_def shouldModerateContent_def getReplyModerationInfo_def
      split: moderation_info.splits)

theorem default_from_sentiment_witness:
  "moderationAction initial_reply_state = JNull \<and>
   moderationActions fetched_view ''r1'' = None \<and>
   preloadedModerations fetched_view ''r1'' = None \<and>
   replyAnalysisResults fetched_view = None \<and>
   moderationType initial_reply_state (reply_getReplySentiment (Some payload) ''r1'') = JStr ''hide'' \<and>
   moderationType initial_reply_state (reply_getReplySentiment (Some payload) ''r2'') = JStr ''blur'' \<and>
   moderationType initial_reply_state (reply_getReplySentiment (Some payload) ''r3'') = JNull \<and>
   moderationType initial_reply_state (reply_getReplySentiment (Some payload) ''r4'') = JNull \<and>
   shouldModerateContent fetched_view ''r1'' = None \<and>
   moderationActions fallback_view ''r3'' = None \<and>
   preloadedModerations fallback_view ''r3'' = None \<and>
   moderationActions fallback_view ''r1'' = None \<and>
   preloadedModerations fallback_view ''r1'' = None \<and>
   shouldModerateContent fallback_view ''r3'' = Some Hide \<and>
   getReplyModerationInfo fallback_view ''r1'' = Some (ToolAction ''blur_text_content'') \<and>
   shouldModerateContent fallback_view ''r1'' = None \<and>
   shouldModerateContent fallback_view ''r2'' = None"
proof -
  let ?a3 = "\<lparr>reply_id = ''r3'', action_type = Hide, reason = ''manual'',
               sentiment = ''harmful'', timestamp = ''t2'', status = ''applied''\<rparr>"
  let ?res3 = "\<lparr>result_sentiment = Some ''friendly'',
                 moderation_actions = Some [ModAction ?a3, ToolAction ''minimize_media_content'']\<rparr>"
  let ?res1 = "\<lparr>result_sentiment = Some ''harmful'',
                 moderation_actions = Some [ToolAction ''blur_text_content'']\<rparr>"
  let ?e3 = "\<lparr>analysis_reply_id = ''r3'', analysis_result = Some ?res3\<rparr>"
  let ?e1 = "\<lparr>analysis_reply_id = ''r1'', analysis_result = Some ?res1\<rparr>"
  have h: "moderationAction initial_reply_state = JNull"
    by (simp add: initial_reply_state_def)
  have s: "reply_getReplySentiment (Some payload) ''r1'' = ''harmful''"
    "reply_getReplySentiment (Some payload) ''r2'' = ''unfriendly''"
    "reply_getReplySentiment (Some payload) ''r3'' = ''friendly''"
    "reply_getReplySentiment (Some payload) ''r4'' = ''unknown''"
    by (simp_all add: reply_getReplySentiment_def payload_def payload_results_def
        payload_analyses_def entry_def find_analysis_def analysis_sentiment_def)
  have v: "moderationActions fetched_view ''r1'' = None"
    "preloadedModerations fetched_view ''r1'' = None"
    "replyAnalysisResults fetched_view = None"
    by (simp_all add: fetched_view_def)
  have f: "moderationActions fallback_view rid = None"
    "preloadedModerations fallback_view rid = None"
    "replyAnalysisResults fallback_view = Some fallback_results"
    "reply_analyses fallback_results = Some [?e3, ?e1]" for rid
    by (simp_all add: fallback_view_def fallback_results_def)
  have g: "find_analysis [?e3, ?e1] ''r3'' = Some ?e3"
    "find_analysis [?e3, ?e1] ''r1'' = Some ?e1"
    "find_analysis [?e3, ?e1] ''r2'' = None"
    by (simp_all add: find_analysis_def)
  from default_from_sentiment[OF h, where s = "''harmful''" and v = fetched_view
        and replyId = "''r1''"]
    default_from_sentiment[OF h, where s = "''unfriendly''"]
    default_from_sentiment[OF h, where s = "''friendly''"]
    default_from_sentiment[OF h, where s = "''unknown''"] h s v
  have part1: "moderationType initial_reply_state (reply_getReplySentiment (Some payload) ''r1'') = JStr ''hide'' \<and>
   moderationType initial_reply_state (reply_getReplySentiment (Some payload) ''r2'') = JStr ''blur'' \<and>
   moderationType initial_reply_state (reply_getReplySentiment (Some payload) ''r3'') = JNull \<and>
   moderationType initial_reply_state (reply_getReplySentiment (Some payload) ''r4'') = JNull \<and>
   shouldModerateContent fetched_view ''r1'' = None"
    by simp
  from default_from_sentiment[OF h, where v = fallback_view and replyId = "''r3''"
        and results = fallback_results and analyses = "[?e3, ?e1]" and replyAnalysis = ?e3
        and res = ?res3 and first = "ModAction ?a3"
        and rest = "[ToolAction ''minimize_media_content'']"] f g
  have r3: "shouldModerateContent fallback_view ''r3'' = Some Hide"
    by simp
  from default_from_sentiment[OF h, where v = fallback_view and replyId = "''r1''"
        and results = fallback_results and analyses = "[?e3, ?e1]" and replyAnalysis = ?e1
        and res = ?res1 and first = "ToolAction ''blur_text_content''" and rest = "[]"] f g
  have r1: "getReplyModerationInfo fallback_view ''r1'' = Some (ToolAction ''blur_text_content'')"
    "shouldModerateContent fallback_view ''r1'' = None"
    by simp_all
  from default_from_sentiment[OF h, where v = fallback_view and replyId = "''r2''"
        and results = fallback_results and analyses = "[?e3, ?e1]"] f g
  have "getReplyModerationInfo fallback_view ''r2'' = None"
    by simp
  then have r2: "shouldModerateContent fallback_view ''r2'' = None"
    by (simp add: shouldModerateContent_def)
  from h v part1 f r3 r1 r2 show ?thesis by simp
qed

section \<open>The channel: dispatch\<close>

lemmas channel_defs =
  connect_def disconnect_def subscribe_def unsubscribe_def onopen_def onmessage_def
  onmessage_try_def onerror_def onclose_def scheduleReconnect_def clearReconnectTimer_def
  socket_close_def notifyListeners_def readyState_of_def ws_is_open_def live_socket_def
  initial_channel_def reconnectInterval_def

lemma open_channel_fields:
  "ws open_channel = Some 0" "sockets open_channel = [OPEN]" "timers open_channel = []"
  "isConnecting open_channel = False" "invoked open_channel = []"
  "map fst (listeners open_channel) = [''faulty'', ''reply-r1'', ''reply-r2'']"
  "listeners open_channel = [(''faulty'', raising_listener), (''reply-r1'', reply_listener ''r1''), (''reply-r2'', reply_listener ''r2'')]"
  "world open_channel = (\<lambda>rid. initial_reply_state)"
  by (simp_all add: open_channel_def channel_defs subscriptionId_def)

lemma forEach_listener_calls: "fst (forEach_listener ls data w) = map fst ls"
proof (induction ls arbitrary: w)
  case Nil
  then show ?case by simp
next
  case (Cons l ls)
  from Cons.IH[of "case snd l data w of Returned w' \<Rightarrow> w' | Raised e w' \<Rightarrow> w'"]
  show ?case by (simp add: case_prod_beta)
qed

lemma count_list_distinct:
  "distinct xs \<Longrightarrow> count_list xs k = (if k \<in> set xs then 1 else 0)"
  by (induction xs) auto

lemma map_set_keys: "set (map fst (map_set m k v)) = insert k (set (map fst m))"
  by (induction m) auto

lemma map_set_distinct: "distinct (map fst m) \<Longrightarrow> distinct (map fst (map_set m k v))"
proof (induction m)
  case Nil
  then show ?case by simp
next
  case (Cons p m)
  then show ?case using map_set_keys[of m k v] by (auto simp del: set_map)
qed

lemma map_delete_distinct: "distinct (map fst m) \<Longrightarrow> distinct (map fst (map_delete m k))"
  by (simp add: map_delete_def distinct_map_filter)

lemma listeners_clearReconnectTimer [simp]:
  "listeners (clearReconnectTimer s) = listeners s"
  by (simp add: clearReconnectTimer_def split: option.splits)

lemma listeners_scheduleReconnect [simp]:
  "listeners (scheduleReconnect s) = listeners s"
  by (simp add: scheduleReconnect_def Let_def)

lemma listeners_connect [simp]: "listeners (connect c s) = listeners s"
  by (simp add: connect_def Let_def)

lemma listeners_notifyListeners [simp]: "listeners (notifyListeners data s) = listeners s"
  by (simp add: notifyListeners_def split: prod.splits)

lemma listeners_onmessage [simp]: "listeners (onmessage parsed s) = listeners s"
  by (simp add: onmessage_def onmessage_try_def split: option.splits sum.splits)

lemma step_distinct_listeners:
  "distinct (map fst (listeners s)) \<Longrightarrow> distinct (map fst (listeners (step e s)))"
  by (cases e)
     (simp_all add: disconnect_def Let_def subscribe_def unsubscribe_def onopen_def
        onerror_def onclose_def socket_close_def map_set_distinct map_delete_distinct
        split: option.splits)

lemma run_distinct_listeners:
  "distinct (map fst (listeners s)) \<Longrightarrow> distinct (map fst (listeners (run evs s)))"
  by (induction evs arbitrary: s) (simp_all add: step_distinct_listeners)

lemma internal_notifyListeners: "internal (notifyListeners data s) = internal s"
  by (simp add: internal_def notifyListeners_def split: prod.splits)

lemma forEach_listener_world:
  "snd (forEach_listener ls data w) =
     foldl (\<lambda>w l. case snd l data w of Returned w' \<Rightarrow> w' | Raised e w' \<Rightarrow> w') w ls"
proof (induction ls arbitrary: w)
  case Nil
  then show ?case by simp
next
  case (Cons l ls)
  from Cons.IH[of "case snd l data w of Returned w' \<Rightarrow> w' | Raised e w' \<Rightarrow> w'"]
  show ?case by (simp add: case_prod_beta)
qed

lemma forEach_listener_append:
  "snd (forEach_listener (xs @ ys) data w) =
     snd (forEach_listener ys data (snd (forEach_listener xs data w)))"
  by (simp add: forEach_listener_world)

lemma world_notifyListeners:
  "world (notifyListeners data s) = snd (forEach_listener (listeners s) data (world s))"
  by (simp add: notifyListeners_def case_prod_beta)

text \<open>
  Claim C6. For every update and every registry the channel can reach, each registered
  callback is invoked exactly once for the update and no other callback is invoked, whether
  or not some of the callbacks raise: the state after the dispatch is the state after every
  callback has run in turn, each one from what the one before it left, returned or raised,
  and the callbacks before and after one that raises run from the state it left, as they
  would without it when it changed nothing. The dispatch leaves the fields of the service
  as they were. (A callback acts on the state of its component and does not call the
  service back, as the two subscribers of this program do.)
\<close>

theorem listener_failures_isolated:
  "(\<exists>calls. invoked (notifyListeners data (run evs (initial_channel w0))) =
             invoked (run evs (initial_channel w0)) @ calls \<and>
      (\<forall>k. count_list calls k =
           (if k \<in> fst ` set (listeners (run evs (initial_channel w0))) then 1 else 0))) \<and>
   internal (notifyListeners data (run evs (initial_channel w0))) =
     internal (run evs (initial_channel w0)) \<and>
   world (notifyListeners data (run evs (initial_channel w0))) =
     foldl (\<lambda>w l. case snd l data w of Returned w' \<Rightarrow> w' | Raised e w' \<Rightarrow> w')
       (world (run evs (initial_channel w0))) (listeners (run evs (initial_channel w0))) \<and>
   (listeners (run evs (initial_channel w0)) = before @ (k, callback) # after \<longrightarrow>
    (\<forall>w. \<exists>e. callback data w = Raised e w) \<longrightarrow>
      world (notifyListeners data (run evs (initial_channel w0))) =
        snd (forEach_listener after data
              (snd (forEach_listener before data (world (run evs (initial_channel w0)))))))"
proof -
  define s where "s = run evs (initial_channel w0)"
  have d: "distinct (map fst (listeners s))"
    unfolding s_def by (rule run_distinct_listeners) (simp add: initial_channel_def)
  have "invoked (notifyListeners data s) = invoked s @ map fst (listeners s)"
    by (simp add: notifyListeners_def case_prod_beta forEach_listener_calls)
  moreover have "count_list (map fst (listeners s)) k =
      (if k \<in> fst ` set (listeners s) then 1 else 0)" for k
    using count_list_distinct[OF d, of k] by simp
  ultimately have calls: "\<exists>calls. invoked (notifyListeners data s) = invoked s @ calls \<and>
      (\<forall>k. count_list calls k = (if k \<in> fst ` set (listeners s) then 1 else 0))"
    by blast
  have w: "world (notifyListeners data s) =
     foldl (\<lambda>w l. case snd l data w of Returned w' \<Rightarrow> w' | Raised e w' \<Rightarrow> w')
       (world s) (listeners s)"
    by (simp add: world_notifyListeners forEach_listener_world)
  have iso: "world (notifyListeners data s) =
        snd (forEach_listener after data (snd (forEach_listener before data (world s))))"
    if l: "listeners s = before @ (k, callback) # after"
      and r: "\<forall>w. \<exists>e. callback data w = Raised e w"
  proof -
    have "(case callback data w' of Returned w'' \<Rightarrow> w'' | Raised e w'' \<Rightarrow> w'') = w'" for w'
      using r by (metis outcome.simps(6))
    then have "snd (forEach_listener ((k, callback) # after) data w') =
        snd (forEach_listener after data w')" for w'
      by (simp add: case_prod_beta)
    then show ?thesis
      unfolding world_notifyListeners l forEach_listener_append[of before] by simp
  qed
  show ?thesis
    unfolding s_def[symmetric] using calls internal_notifyListeners[of data s] w iso by blast
qed

theorem listener_failures_isolated_witness:
  "listeners open_channel =
     [] @ (''faulty'', raising_listener) #
       [(''reply-r1'', reply_listener ''r1''), (''reply-r2'', reply_listener ''r2'')] \<and>
   (\<forall>w. \<exists>e. raising_listener update_r1 (w :: string \<Rightarrow> reply_state) = Raised e w) \<and>
   invoked open_channel = [] \<and>
   invoked (notifyListeners update_r1 open_channel) = [''faulty'', ''reply-r1'', ''reply-r2''] \<and>
   internal (notifyListeners update_r1 open_channel) = internal open_channel \<and>
   world open_channel ''r1'' = initial_reply_state \<and>
   world (notifyListeners update_r1 open_channel) ''r1'' =
     \<lparr>moderationAction = action_r1, isContentRevealed = False, isMediaRevealed = False\<rparr> \<and>
   world (notifyListeners update_r1 open_channel) ''r2'' = initial_reply_state"
proof -
  let ?evs = "[Connect True, SocketOpen 0,
          Subscribe ''faulty'' raising_listener,
          Subscribe (subscriptionId ''r1'') (reply_listener ''r1''),
          Subscribe (subscriptionId ''r2'') (reply_listener ''r2'')]"
  let ?after = "[(''reply-r1'', reply_listener ''r1''), (''reply-r2'', reply_listener ''r2'')]"
  have o: "open_channel = run ?evs (initial_channel (\<lambda>rid. initial_reply_state))"
    by (simp add: open_channel_def)
  have l: "listeners open_channel = [] @ (''faulty'', raising_listener) # ?after"
    by (simp add: open_channel_fields)
  have r: "\<forall>w. \<exists>e. raising_listener update_r1 (w :: string \<Rightarrow> reply_state) = Raised e w"
    by (simp add: raising_listener_def)
  have t: "targets update_r1 ''r1''" "\<not> targets update_r1 ''r2''"
    "opt_prop update_r1 ''action'' = action_r1"
    by (simp_all add: targets_def update_r1_def action_r1_def opt_prop_def)
  note main = listener_failures_isolated[of update_r1 ?evs "\<lambda>rid. initial_reply_state"
      "[]" "''faulty''" raising_listener ?after, folded o]
  from main have i: "internal (notifyListeners update_r1 open_channel) = internal open_channel"
    by blast
  from main l r have "world (notifyListeners update_r1 open_channel) =
      snd (forEach_listener ?after update_r1
            (snd (forEach_listener [] update_r1 (world open_channel))))"
    by blast
  then have w: "world (notifyListeners update_r1 open_channel) =
      snd (forEach_listener ?after update_r1 (world open_channel))"
    by simp
  have c: "invoked (notifyListeners update_r1 open_channel) =
      [''faulty'', ''reply-r1'', ''reply-r2'']"
    by (simp add: notifyListeners_def case_prod_beta forEach_listener_calls open_channel_fields)
  have "snd (forEach_listener ?after update_r1 (world open_channel)) ''r1'' =
      \<lparr>moderationAction = action_r1, isContentRevealed = False, isMediaRevealed = False\<rparr>"
    "snd (forEach_listener ?after update_r1 (world open_channel)) ''r2'' = initial_reply_state"
    using t by (simp_all add: case_prod_beta open_channel_fields reply_listener_def
        reply_subscriber_def targets_def update_r1_def action_r1_def initial_reply_state_def)
  with l r i w c show ?thesis
    by (simp add: open_channel_fields)
qed

section \<open>The channel: incoming messages\<close>

text \<open>
  The handler tests the discriminator only. An envelope of type
  \<^verbatim>\<open>content_moderation\<close> that carries no action is not a \<^verbatim>\<open>ModerationUpdate\<close>, yet
  every subscriber is called with it: Claim C5 does not hold of such messages.
\<close>

theorem bare_envelope_is_dispatched:
  "\<not> is_ModerationUpdate bare_envelope \<and>
   invoked open_channel = [] \<and>
   invoked (step (SocketMessage 0 (Some bare_envelope)) open_channel) =
     [''faulty'', ''reply-r1'', ''reply-r2'']"
  by (simp add: is_ModerationUpdate_def is_ModerationAction_def opt_prop_def bare_envelope_def
      open_channel_fields readyState_of_def onmessage_def onmessage_try_def
      notifyListeners_def case_prod_beta forEach_listener_calls)

text \<open>
  Claim C5, as the code has it. For every incoming message that fails to parse, or whose
  parsed value does not have the property \<^verbatim>\<open>type\<close> equal to \<^verbatim>\<open>'content_moderation'\<close>
  (reading it may itself raise, as on \<^verbatim>\<open>null\<close>), no callback is invoked and nothing
  changes at all; for every message whatsoever the handler returns normally and the
  fields of the service, the sockets and the timers are unchanged; and every message that
  has the discriminator is dispatched, whatever else it carries: each subscriber is
  invoked, and the state of the components is the one their callbacks leave.
\<close>

theorem unhandled_message_discarded:
  "(parsed = None \<or>
    (\<exists>data. parsed = Some data \<and> get_prop data ''type'' \<noteq> Inr (JStr ''content_moderation''))
      \<longrightarrow> onmessage parsed s = s) \<and>
   internal (onmessage parsed s) = internal s \<and>
   sockets (onmessage parsed s) = sockets s \<and>
   timers (onmessage parsed s) = timers s \<and>
   (get_prop update ''type'' = Inr (JStr ''content_moderation'') \<longrightarrow>
      invoked (onmessage (Some update) s) = invoked s @ map fst (listeners s) \<and>
      world (onmessage (Some update) s) =
        foldl (\<lambda>w l. case snd l update w of Returned w' \<Rightarrow> w' | Raised e w' \<Rightarrow> w')
          (world s) (listeners s))"
proof -
  have "onmessage parsed s = s"
    if "parsed = None \<or>
      (\<exists>data. parsed = Some data \<and> get_prop data ''type'' \<noteq> Inr (JStr ''content_moderation''))"
    using that by (auto simp: onmessage_def onmessage_try_def split: option.splits sum.splits)
  moreover have "internal (onmessage parsed s) = internal s"
    "sockets (onmessage parsed s) = sockets s" "timers (onmessage parsed s) = timers s"
    by (auto simp: onmessage_def onmessage_try_def internal_def notifyListeners_def
        case_prod_beta split: option.splits sum.splits)
  moreover have "invoked (onmessage (Some update) s) = invoked s @ map fst (listeners s) \<and>
      world (onmessage (Some update) s) =
        foldl (\<lambda>w l. case snd l update w of Returned w' \<Rightarrow> w' | Raised e w' \<Rightarrow> w')
          (world s) (listeners s)"
    if "get_prop update ''type'' = Inr (JStr ''content_moderation'')"
    using that
    by (simp add: onmessage_def onmessage_try_def world_notifyListeners
        forEach_listener_world[symmetric])
       (simp add: notifyListeners_def case_prod_beta forEach_listener_calls)
  ultimately show ?thesis by blast
qed

theorem unhandled_message_discarded_witness:
  "get_prop ping ''type'' \<noteq> Inr (JStr ''content_moderation'') \<and>
   get_prop JNull ''type'' \<noteq> Inr (JStr ''content_moderation'') \<and>
   step (SocketMessage 0 (Some ping)) open_channel = open_channel \<and>
   step (SocketMessage 0 (Some JNull)) open_channel = open_channel \<and>
   step (SocketMessage 0 None) open_channel = open_channel \<and>
   get_prop malformed_update ''type'' = Inr (JStr ''content_moderation'') \<and>
   \<not> is_ModerationUpdate malformed_update \<and>
   invoked (step (SocketMessage 0 (Some malformed_update)) open_channel) =
     [''faulty'', ''reply-r1'', ''reply-r2''] \<and>
   world open_channel ''r1'' = initial_reply_state \<and>
   world (step (SocketMessage 0 (Some malformed_update)) open_channel) ''r1'' =
     \<lparr>moderationAction = JObj [(''reply_id'', JStr ''r1'')],
      isContentRevealed = False, isMediaRevealed = False\<rparr>"
proof -
  have d: "get_prop malformed_update ''type'' = Inr (JStr ''content_moderation'')"
    "\<not> is_ModerationUpdate malformed_update"
    by (simp_all add: malformed_update_def is_ModerationUpdate_def is_ModerationAction_def
        opt_prop_def)
  from unhandled_message_discarded[of "Some ping" open_channel]
    unhandled_message_discarded[of "Some JNull" open_channel]
    unhandled_message_discarded[of None open_channel]
  have discard: "get_prop ping ''type'' \<noteq> Inr (JStr ''content_moderation'') \<and>
   get_prop JNull ''type'' \<noteq> Inr (JStr ''content_moderation'') \<and>
   step (SocketMessage 0 (Some ping)) open_channel = open_channel \<and>
   step (SocketMessage 0 (Some JNull)) open_channel = open_channel \<and>
   step (SocketMessage 0 None) open_channel = open_channel"
    by (simp add: ping_def open_channel_fields readyState_of_def)
  from unhandled_message_discarded[where update = malformed_update and s = open_channel
      and parsed = None] d
  have "invoked (onmessage (Some malformed_update) open_channel) =
      invoked open_channel @ map fst (listeners open_channel)"
    and "world (onmessage (Some malformed_update) open_channel) =
      foldl (\<lambda>w l. case snd l malformed_update w of Returned w' \<Rightarrow> w' | Raised e w' \<Rightarrow> w')
        (world open_channel) (listeners open_channel)"
    by blast+
  then have "invoked (step (SocketMessage 0 (Some malformed_update)) open_channel) =
     [''faulty'', ''reply-r1'', ''reply-r2'']"
    and "world (step (SocketMessage 0 (Some malformed_update)) open_channel) ''r1'' =
     \<lparr>moderationAction = JObj [(''reply_id'', JStr ''r1'')],
      isContentRevealed = False, isMediaRevealed = False\<rparr>"
    by (simp_all add: open_channel_fields readyState_of_def raising_listener_def
        reply_listener_def reply_subscriber_def malformed_update_def initial_reply_state_def)
  with discard d show ?thesis
    by (simp add: open_channel_fields)
qed

section \<open>The channel: connecting\<close>

text \<open>
  \<^verbatim>\<open>connect()\<close> changes nothing when the connection is open or the flag
  \<^verbatim>\<open>isConnecting\<close> is set, and a call that constructs a socket sets the flag.
\<close>

lemma connect_guarded:
  "(ws_is_open s \<or> isConnecting s \<longrightarrow> connect constructed s = s) \<and>
   connect constructed (connect True s) = connect True s"
  by (simp add: connect_def Let_def)

text \<open>
  Claim C7 at a service that reconnects after a \<^verbatim>\<open>disconnect()\<close>: the flag is one for
  all sockets, and the close event of the socket that was disconnected clears it while the
  new socket is still connecting. With that attempt in flight, \<^verbatim>\<open>connect()\<close> constructs
  another socket, and so does the reconnect timer that the same close event has scheduled.
\<close>

theorem stale_close_breaks_single_flight:
  "ws (run [Connect True, SocketOpen 0, Disconnect, Connect True] (initial_channel ())) = Some 1 \<and>
   sockets (run [Connect True, SocketOpen 0, Disconnect, Connect True] (initial_channel ())) =
     [CLOSING, CONNECTING] \<and>
   isConnecting (run [Connect True, SocketOpen 0, Disconnect, Connect True] (initial_channel ())) \<and>
   ws (run [Connect True, SocketOpen 0, Disconnect, Connect True, SocketClose 0]
         (initial_channel ())) = Some 1 \<and>
   sockets (run [Connect True, SocketOpen 0, Disconnect, Connect True, SocketClose 0]
         (initial_channel ())) = [CLOSED, CONNECTING] \<and>
   \<not> isConnecting (run [Connect True, SocketOpen 0, Disconnect, Connect True, SocketClose 0]
         (initial_channel ())) \<and>
   sockets (connect True (run [Connect True, SocketOpen 0, Disconnect, Connect True, SocketClose 0]
         (initial_channel ()))) = [CLOSED, CONNECTING, CONNECTING] \<and>
   sockets (run [Connect True, SocketOpen 0, Disconnect, Connect True, SocketClose 0,
                 TimerFires 1 True] (initial_channel ())) = [CLOSED, CONNECTING, CONNECTING]"
  by (simp add: channel_defs)

section \<open>The channel: reconnecting\<close>

text \<open>
  In every state that the channel reaches, at most one timeout is pending and the service
  holds its handle.
\<close>

lemma single_timer_iff:
  "single_timer s \<longleftrightarrow>
     timers s = [] \<or>
     (\<exists>t. t \<noteq> 0 \<and> timers s = [(t, reconnectInterval)] \<and> reconnectTimer s = Some t)"
  by (cases "timers s") (auto simp: single_timer_def)

lemma timers_clearReconnectTimer:
  "single_timer s \<Longrightarrow> timers (clearReconnectTimer s) = []"
  by (auto simp: single_timer_iff clearReconnectTimer_def split: option.splits)

lemma single_timer_clearReconnectTimer:
  "single_timer s \<Longrightarrow> single_timer (clearReconnectTimer s)"
  using timers_clearReconnectTimer[of s] by (simp add: single_timer_iff)

lemma timers_scheduleReconnect:
  "single_timer s \<Longrightarrow>
   timers (scheduleReconnect s) = [(Suc (timer_count s), reconnectInterval)] \<and>
   reconnectTimer (scheduleReconnect s) = Some (Suc (timer_count s))"
  using timers_clearReconnectTimer[of s]
  by (simp add: scheduleReconnect_def Let_def)
     (simp add: clearReconnectTimer_def split: option.splits)

lemma single_timer_scheduleReconnect:
  "single_timer s \<Longrightarrow> single_timer (scheduleReconnect s)"
  using timers_scheduleReconnect[of s] by (simp add: single_timer_iff)

lemma single_timer_cong:
  "timers s' = timers s \<Longrightarrow> reconnectTimer s' = reconnectTimer s \<Longrightarrow>
   single_timer s' = single_timer s"
  by (simp add: single_timer_iff)

lemma single_timer_connect: "single_timer s \<Longrightarrow> single_timer (connect c s)"
proof -
  assume a: "single_timer s"
  have "single_timer (s\<lparr>isConnecting := True, isConnecting := False\<rparr>)"
    using a by (simp add: single_timer_iff)
  from single_timer_scheduleReconnect[OF this] a show ?thesis
    by (simp add: connect_def Let_def single_timer_iff)
qed

lemma timers_onmessage [simp]:
  "timers (onmessage parsed s) = timers s" "reconnectTimer (onmessage parsed s) = reconnectTimer s"
  by (simp_all add: onmessage_def onmessage_try_def notifyListeners_def case_prod_beta
      split: option.splits sum.splits)

lemma single_timer_disconnect: "single_timer s \<Longrightarrow> single_timer (disconnect s)"
  using timers_clearReconnectTimer[of s]
  by (simp add: disconnect_def Let_def socket_close_def single_timer_iff split: option.splits)

lemma single_timer_step: "single_timer s \<Longrightarrow> single_timer (step e s)"
proof (cases e)
  case (Connect c)
  assume "single_timer s"
  then show ?thesis using Connect by (simp add: single_timer_connect)
next
  case Disconnect
  assume "single_timer s"
  then show ?thesis using Disconnect by (simp add: single_timer_disconnect)
next
  case (Subscribe k cb)
  assume "single_timer s"
  then show ?thesis using Subscribe by (simp add: subscribe_def single_timer_iff)
next
  case (Unsubscribe k)
  assume "single_timer s"
  then show ?thesis using Unsubscribe by (simp add: unsubscribe_def single_timer_iff)
next
  case (SocketOpen i)
  assume a: "single_timer s"
  have "single_timer (s\<lparr>sockets := (sockets s)[i := OPEN], isConnecting := False\<rparr>)"
    using a by (simp add: single_timer_iff)
  from single_timer_clearReconnectTimer[OF this] a show ?thesis
    using SocketOpen by (simp add: onopen_def)
next
  case (SocketMessage i parsed)
  assume "single_timer s"
  then show ?thesis using SocketMessage
    by (simp add: single_timer_cong[of "onmessage parsed s" s])
next
  case (SocketError i)
  assume "single_timer s"
  then show ?thesis using SocketError by (simp add: onerror_def single_timer_iff)
next
  case (SocketClose i)
  assume a: "single_timer s"
  have "single_timer (s\<lparr>sockets := (sockets s)[i := CLOSED], isConnecting := False\<rparr>)"
    using a by (simp add: single_timer_iff)
  from single_timer_scheduleReconnect[OF this] a show ?thesis
    using SocketClose by (simp add: onclose_def)
next
  case (TimerFires t c)
  assume a: "single_timer s"
  have "single_timer (s\<lparr>timers := [p \<leftarrow> timers s. fst p \<noteq> t]\<rparr>)"
    using a by (auto simp: single_timer_iff split: if_splits)
  from single_timer_connect[OF this] a show ?thesis
    using TimerFires by simp
qed

lemma single_timer_run: "single_timer s \<Longrightarrow> single_timer (run evs s)"
  by (induction evs arbitrary: s) (simp_all add: single_timer_step)

lemma single_timer_reachable: "single_timer (run evs (initial_channel w0))"
  by (rule single_timer_run) (simp add: single_timer_iff initial_channel_def)

text \<open>
  Claim C8. On every connection error or close event exactly one reconnect attempt is
  scheduled after the fixed delay of 5000 ms, and at most one reconnect timer is ever
  pending. In every reachable state: at most one timer is pending; the close event of a
  socket leaves exactly one timer, the new one with delay 5000, and so does a
  \<^verbatim>\<open>connect()\<close> whose socket construction fails; \<^verbatim>\<open>scheduleReconnect\<close> cancels the
  pending timer first, so that the new timer is the only one; and a connection error, which
  is an error event with the close event after it, leaves exactly one timer, the error
  handler itself leaving the timers as they are.
\<close>

theorem single_reconnect_timer:
  "length (timers (run evs (initial_channel w0))) \<le> 1 \<and>
   (live_socket (run evs (initial_channel w0)) i \<longrightarrow>
      timers (step (SocketClose i) (run evs (initial_channel w0))) =
        [(Suc (timer_count (run evs (initial_channel w0))), 5000)]) \<and>
   (\<not> ws_is_open (run evs (initial_channel w0)) \<and>
    \<not> isConnecting (run evs (initial_channel w0)) \<longrightarrow>
      timers (connect False (run evs (initial_channel w0))) =
        [(Suc (timer_count (run evs (initial_channel w0))), 5000)]) \<and>
   timers (scheduleReconnect (run evs (initial_channel w0))) =
     [(Suc (timer_count (run evs (initial_channel w0))), 5000)] \<and>
   timers (step (SocketError i) (run evs (initial_channel w0))) =
     timers (run evs (initial_channel w0)) \<and>
   (live_socket (run evs (initial_channel w0)) i \<longrightarrow>
      timers (step (SocketClose i) (step (SocketError i) (run evs (initial_channel w0)))) =
        [(Suc (timer_count (run evs (initial_channel w0))), 5000)])"
proof -
  define s where "s = run evs (initial_channel w0)"
  have inv: "single_timer s"
    unfolding s_def by (rule single_timer_reachable)
  have one: "length (timers s) \<le> 1"
    using inv by (auto simp: single_timer_iff)
  have sched: "timers (scheduleReconnect s) = [(Suc (timer_count s), 5000)]"
    using timers_scheduleReconnect[OF inv] by (simp add: reconnectInterval_def)
  have close: "timers (step (SocketClose i) s) = [(Suc (timer_count s), 5000)]"
    if "live_socket s i"
  proof -
    have "single_timer (s\<lparr>sockets := (sockets s)[i := CLOSED], isConnecting := False\<rparr>)"
      using inv by (simp add: single_timer_iff)
    from timers_scheduleReconnect[OF this] that show ?thesis
      by (simp add: onclose_def reconnectInterval_def)
  qed
  have fail: "timers (connect False s) = [(Suc (timer_count s), 5000)]"
    if "\<not> ws_is_open s \<and> \<not> isConnecting s"
  proof -
    have "single_timer (s\<lparr>isConnecting := True, isConnecting := False\<rparr>)"
      using inv by (simp add: single_timer_iff)
    from timers_scheduleReconnect[OF this] that show ?thesis
      by (simp add: connect_def Let_def reconnectInterval_def)
  qed
  have err: "timers (step (SocketError i) s) = timers s"
    by (simp add: onerror_def)
  have both: "timers (step (SocketClose i) (step (SocketError i) s)) =
      [(Suc (timer_count s), 5000)]" if "live_socket s i"
  proof -
    have "single_timer
        (s\<lparr>isConnecting := False, sockets := (sockets s)[i := CLOSED], isConnecting := False\<rparr>)"
      using inv by (simp add: single_timer_iff)
    moreover have "step (SocketError i) s = s\<lparr>isConnecting := False\<rparr>"
      using that by (simp add: onerror_def)
    moreover have "live_socket (s\<lparr>isConnecting := False\<rparr>) i"
      using that by (auto simp: live_socket_def readyState_of_def split: if_splits)
    ultimately show ?thesis
      using timers_scheduleReconnect[of
          "s\<lparr>isConnecting := False, sockets := (sockets s)[i := CLOSED],
             isConnecting := False\<rparr>"]
      by (simp add: onclose_def reconnectInterval_def)
  qed
  show ?thesis
    unfolding s_def[symmetric] using one sched close fail err both by blast
qed

theorem single_reconnect_timer_witness:
  "live_socket (run [Connect True, SocketOpen 0] (initial_channel ())) 0 \<and>
   timers (run [Connect True, SocketOpen 0] (initial_channel ())) = [] \<and>
   timers (step (SocketClose 0) (run [Connect True, SocketOpen 0] (initial_channel ()))) =
     [(1, 5000)] \<and>
   \<not> ws_is_open (run [Connect True, SocketClose 0] (initial_channel ())) \<and>
   \<not> isConnecting (run [Connect True, SocketClose 0] (initial_channel ())) \<and>
   timers (run [Connect True, SocketClose 0] (initial_channel ())) = [(1, 5000)] \<and>
   timers (connect False (run [Connect True, SocketClose 0] (initial_channel ()))) =
     [(2, 5000)] \<and>
   timers (step (SocketClose 0) (step (SocketError 0)
       (run [Connect True, SocketOpen 0] (initial_channel ())))) = [(1, 5000)]"
proof -
  have a: "live_socket (run [Connect True, SocketOpen 0] (initial_channel ())) 0"
    "timer_count (run [Connect True, SocketOpen 0] (initial_channel ())) = 0"
    "timers (run [Connect True, SocketOpen 0] (initial_channel ())) = []"
    by (simp_all add: channel_defs)
  have b: "\<not> ws_is_open (run [Connect True, SocketClose 0] (initial_channel ()))"
    "\<not> isConnecting (run [Connect True, SocketClose 0] (initial_channel ()))"
    "timer_count (run [Connect True, SocketClose 0] (initial_channel ())) = 1"
    "timers (run [Connect True, SocketClose 0] (initial_channel ())) = [(1, 5000)]"
    by (simp_all add: channel_defs)
  from single_reconnect_timer[of "[Connect True, SocketOpen 0]" "()" 0]
    single_reconnect_timer[of "[Connect True, SocketClose 0]" "()" 0] a b
  show ?thesis by simp
qed

section \<open>The channel: disconnecting\<close>

text \<open>
  \<^verbatim>\<open>disconnect()\<close> cancels the pending timer, closes the socket it refers to, forgets it and
  clears the subscriptions; on a service that never connected it changes nothing; and when
  no socket is connecting, open or closing (as during a reconnect wait), nothing happens
  after it.
\<close>

lemma disconnect_effects:
  assumes "single_timer s"
  shows "timers (disconnect s) = []" and "reconnectTimer (disconnect s) = None \<or> timers s = []"
    and "ws (disconnect s) = None" and "listeners (disconnect s) = []"
    and "\<not> ws_is_open (disconnect s)"
    and "ws s = Some i \<Longrightarrow> readyState_of (disconnect s) i \<noteq> Some OPEN \<and>
           readyState_of (disconnect s) i \<noteq> Some CONNECTING"
    and "ws s = None \<Longrightarrow> sockets (disconnect s) = sockets s"
  using assms timers_clearReconnectTimer[OF assms]
  by (auto simp: disconnect_def Let_def socket_close_def ws_is_open_def readyState_of_def
      clearReconnectTimer_def single_timer_iff split: option.splits if_splits)

lemma disconnect_when_not_connected:
  "disconnect (initial_channel w) = initial_channel w"
  by (simp add: channel_defs)

lemma quiescent_after_disconnect:
  assumes "single_timer s" and "\<forall>i. \<not> live_socket s i"
  shows "step (SocketOpen i) (disconnect s) = disconnect s"
    and "step (SocketMessage i parsed) (disconnect s) = disconnect s"
    and "step (SocketError i) (disconnect s) = disconnect s"
    and "step (SocketClose i) (disconnect s) = disconnect s"
    and "step (TimerFires t c) (disconnect s) = disconnect s"
proof -
  have t: "timers (disconnect s) = []"
    using timers_clearReconnectTimer[OF assms(1)]
    by (simp add: disconnect_def Let_def socket_close_def split: option.splits)
  have c: "sockets (clearReconnectTimer s) = sockets s" "ws (clearReconnectTimer s) = ws s"
    by (simp_all add: clearReconnectTimer_def split: option.splits)
  have "readyState_of (clearReconnectTimer s) j = readyState_of s j" for j
    using c by (simp add: readyState_of_def)
  then have "\<not> live_socket (clearReconnectTimer s) j" for j
    using assms(2) by (simp add: live_socket_def)
  then have "socket_close j (clearReconnectTimer s) = clearReconnectTimer s" for j
    by (simp add: socket_close_def live_socket_def)
  then have "sockets (disconnect s) = sockets s"
    using c by (simp add: disconnect_def Let_def split: option.splits)
  then have r: "readyState_of (disconnect s) j = readyState_of s j" for j
    by (simp add: readyState_of_def)
  show "step (SocketOpen i) (disconnect s) = disconnect s"
    "step (SocketMessage i parsed) (disconnect s) = disconnect s"
    "step (SocketError i) (disconnect s) = disconnect s"
    "step (SocketClose i) (disconnect s) = disconnect s"
    "step (TimerFires t c) (disconnect s) = disconnect s"
    using assms(2) t r by (auto simp: live_socket_def)
qed

text \<open>
  Claim C9 at a service with an open connection: \<^verbatim>\<open>disconnect()\<close> closes the socket but
  leaves its \<^verbatim>\<open>onclose\<close> handler in place, so the close event of that socket schedules a
  reconnect, and when the timer fires \<^verbatim>\<open>connect()\<close> constructs a new socket.
\<close>

theorem close_after_disconnect_reconnects:
  "ws_is_open (run [Connect True, SocketOpen 0] (initial_channel ())) \<and>
   ws (run [Connect True, SocketOpen 0, Disconnect] (initial_channel ())) = None \<and>
   timers (run [Connect True, SocketOpen 0, Disconnect] (initial_channel ())) = [] \<and>
   sockets (run [Connect True, SocketOpen 0, Disconnect] (initial_channel ())) = [CLOSING] \<and>
   timers (run [Connect True, SocketOpen 0, Disconnect, SocketClose 0] (initial_channel ())) =
     [(1, 5000)] \<and>
   ws (run [Connect True, SocketOpen 0, Disconnect, SocketClose 0, TimerFires 1 True]
         (initial_channel ())) = Some 1 \<and>
   sockets (run [Connect True, SocketOpen 0, Disconnect, SocketClose 0, TimerFires 1 True]
         (initial_channel ())) = [CLOSED, CONNECTING]"
  by (simp add: channel_defs)

section \<open>The subscription of a Reply\<close>

lemma reply_subscriber_cases:
  "reply_subscriber R data st =
     (if targets data R
      then Returned (st\<lparr>moderationAction := opt_prop data ''action'',
                         isContentRevealed := False, isMediaRevealed := False\<rparr>)
      else case get_prop data ''action'' of
             Inl e \<Rightarrow> Raised e st
           | Inr action \<Rightarrow>
               (case get_prop action ''reply_id'' of Inl e \<Rightarrow> Raised e st | Inr r \<Rightarrow> Returned st))"
  by (auto simp: reply_subscriber_def targets_def opt_prop_def split: sum.splits)

lemma reply_listener_world:
  "(case reply_listener r data w of Returned w' \<Rightarrow> w' | Raised e w' \<Rightarrow> w') =
     (if targets data r
      then w(r := (w r)\<lparr>moderationAction := opt_prop data ''action'',
                        isContentRevealed := False, isMediaRevealed := False\<rparr>)
      else w)"
  by (auto simp: reply_listener_def reply_subscriber_cases split: sum.splits)

lemma forEach_reply_listeners:
  "snd (forEach_listener (reply_listeners rids) data w) R =
     (if R \<in> set rids \<and> targets data R
      then (w R)\<lparr>moderationAction := opt_prop data ''action'',
                  isContentRevealed := False, isMediaRevealed := False\<rparr>
      else w R)"
proof (induction rids arbitrary: w)
  case Nil
  then show ?case by (simp add: reply_listeners_def)
next
  case (Cons r rids)
  have "snd (forEach_listener (reply_listeners (r # rids)) data w) R =
        snd (forEach_listener (reply_listeners rids) data
              (case reply_listener r data w of Returned w' \<Rightarrow> w' | Raised e w' \<Rightarrow> w')) R"
    by (simp add: reply_listeners_def case_prod_beta)
  also have "\<dots> = (if R \<in> set (r # rids) \<and> targets data R
      then (w R)\<lparr>moderationAction := opt_prop data ''action'',
                  isContentRevealed := False, isMediaRevealed := False\<rparr>
      else w R)"
    unfolding Cons.IH reply_listener_world by auto
  finally show ?case .
qed

text \<open>
  Claim C10. A dispatch calls every registered subscriber. The subscriber of reply \<open>R\<close>
  changes the state of \<open>R\<close> only when \<^verbatim>\<open>update.action.reply_id\<close> is the id of \<open>R\<close>:
  then it stores the update's action and sets both revealed flags to false; on any other
  update it leaves the stored action and both flags as they were. The same holds of the
  component states after a whole dispatch to the subscribers of the mounted replies.
\<close>

theorem reply_update_frame:
  "fst (forEach_listener ls data w) = map fst ls \<and>
   (targets data R \<longrightarrow>
      reply_subscriber R data st =
        Returned (st\<lparr>moderationAction := opt_prop data ''action'',
                      isContentRevealed := False, isMediaRevealed := False\<rparr>)) \<and>
   (\<not> targets data R \<longrightarrow>
      reply_subscriber R data st = Returned st \<or>
      (\<exists>e. reply_subscriber R data st = Raised e st)) \<and>
   snd (forEach_listener (reply_listeners rids) data w') R =
     (if R \<in> set rids \<and> targets data R
      then (w' R)\<lparr>moderationAction := opt_prop data ''action'',
                   isContentRevealed := False, isMediaRevealed := False\<rparr>
      else w' R)"
  by (auto simp: forEach_listener_calls forEach_reply_listeners reply_subscriber_cases
      split: sum.splits)

theorem reply_update_frame_witness:
  "targets update_r1 ''r1'' \<and> \<not> targets update_r1 ''r2'' \<and>
   snd (forEach_listener (reply_listeners [''r1'', ''r2'']) update_r1
         (\<lambda>rid. \<lparr>moderationAction = JNull, isContentRevealed = True,
                   isMediaRevealed = True\<rparr>)) ''r1'' =
     \<lparr>moderationAction = action_r1, isContentRevealed = False, isMediaRevealed = False\<rparr> \<and>
   snd (forEach_listener (reply_listeners [''r1'', ''r2'']) update_r1
         (\<lambda>rid. \<lparr>moderationAction = JNull, isContentRevealed = True,
                   isMediaRevealed = True\<rparr>)) ''r2'' =
     \<lparr>moderationAction = JNull, isContentRevealed = True, isMediaRevealed = True\<rparr>"
proof -
  have t: "targets update_r1 ''r1''" "\<not> targets update_r1 ''r2''"
    "opt_prop update_r1 ''action'' = action_r1"
    by (simp_all add: targets_def update_r1_def action_r1_def opt_prop_def)
  from reply_update_frame[where R = "''r1''" and data = update_r1
      and ls = "[]" and w = "()" and st = initial_reply_state
      and rids = "[''r1'', ''r2'']"
      and w' = "\<lambda>rid. \<lparr>moderationAction = JNull, isContentRevealed = True,
                   isMediaRevealed = True\<rparr>"]
    reply_update_frame[where R = "''r2''" and data = update_r1
      and ls = "[]" and w = "()" and st = initial_reply_state
      and rids = "[''r1'', ''r2'']"
      and w' = "\<lambda>rid. \<lparr>moderationAction = JNull, isContentRevealed = True,
                   isMediaRevealed = True\<rparr>"] t
  show ?thesis by simp
qed

end
